theory Spec2Isabelle
  imports Main
begin

section \<open>The hook \<open>useLocalStorage\<close> and the platform it runs on\<close>

text \<open>
  The hook binds a React state cell to one entry of \<open>window.localStorage\<close>. Its source
  has three pieces: the lazy initializer handed to \<open>useState\<close>, the writer
  \<open>setValue\<close>, and an effect that re-reads the entry when \<open>key\<close> or
  \<open>initialValue\<close> change. Each piece is a \<open>try\<close> block whose
  \<open>catch\<close> logs with \<open>console.error\<close>.

  Everything the hook calls but does not define (JSON, the storage object, the test
  \<open>instanceof Function\<close>, calling a function value) is a field of the record
  \<open>platform\<close>, so every statement below holds for every behaviour of these.
\<close>

subsection \<open>Values, exceptions, the platform\<close>

datatype exn = SyntaxError | TypeError | SecurityError | QuotaExceededError | Thrown string

text \<open>
  TypeScript types are erased when the hook runs: the argument of \<open>setValue\<close> is a
  JavaScript value, and \<open>value instanceof Function\<close> is a test on that value. So the
  model has one type \<open>'v\<close> of values; the platform says which of them are functions and
  what calling one returns (\<open>Inl\<close>: it throws).

  \<open>JSON_stringify\<close> returns \<open>None\<close> where \<open>JSON.stringify\<close> returns
  \<open>undefined\<close> (a function, \<open>undefined\<close> itself). The two faults say when
  \<open>getItem\<close> and \<open>setItem\<close> throw (storage disabled, quota exceeded).
\<close>

record 'v platform =
  instanceofFunction :: "'v \<Rightarrow> bool"
  call :: "'v \<Rightarrow> 'v \<Rightarrow> exn + 'v"
  JSON_parse :: "string \<Rightarrow> exn + 'v"
  JSON_stringify :: "'v \<Rightarrow> exn + string option"
  getItem_fault :: "string \<Rightarrow> exn option"
  setItem_fault :: "(string \<rightharpoonup> string) \<Rightarrow> string \<Rightarrow> string \<Rightarrow> exn option"

subsection \<open>State: the storage, what was observed, the state cell\<close>

text \<open>
  \<open>trace\<close> records, in order, every call of the state setter, every call of
  \<open>setItem\<close> (an attempt, whether or not it throws) and every
  \<open>console.error\<close>.
\<close>

datatype 'v event =
    SetStoredValue 'v
  | SetItem string string
  | ConsoleError string exn

record 'v world =
  slots :: "string \<rightharpoonup> string"
  trace :: "'v event list"

text \<open>
  A mounted hook adds the React state: \<open>cell\<close> is the pending state, the value the
  next render gets from \<open>useState\<close>. \<open>renderError\<close> is set when an updater
  handed to the state setter threw: React raises that exception when it renders the
  component again.
\<close>

record 'v hook = "'v world" +
  cell :: 'v
  renderError :: "exn option"

definition emit :: "'v event \<Rightarrow> ('v, 'z) world_scheme \<Rightarrow> ('v, 'z) world_scheme" where
  "emit ev w = w\<lparr>trace := trace w @ [ev]\<rparr>"

definition console_error :: "string \<Rightarrow> exn \<Rightarrow> ('v, 'z) world_scheme \<Rightarrow> ('v, 'z) world_scheme" where
  "console_error msg e w = emit (ConsoleError msg e) w"

definition getItem :: "'v platform \<Rightarrow> string \<Rightarrow> ('v, 'z) world_scheme \<Rightarrow> exn + string option" where
  "getItem env key w =
     (case getItem_fault env key of
        Some e \<Rightarrow> Inl e
      | None \<Rightarrow> Inr (slots w key))"

definition setItem ::
  "'v platform \<Rightarrow> string \<Rightarrow> string \<Rightarrow> ('v, 'z) world_scheme \<Rightarrow> (exn + unit) \<times> ('v, 'z) world_scheme" where
  "setItem env key s w =
     (case setItem_fault env (slots w) key s of
        Some e \<Rightarrow> (Inl e, emit (SetItem key s) w)
      | None \<Rightarrow> (Inr (), emit (SetItem key s) (w\<lparr>slots := (slots w)(key \<mapsto> s)\<rparr>)))"

text \<open>
  \<open>setStoredValue\<close> is the setter \<open>useState\<close> returns. Given a value that is not
  a function it replaces the state by it. Given a function it takes it as an updater: the
  new state is the function's result on the pending state, and if the function throws the
  state stays and the next render fails. The call itself never throws.
\<close>

definition setStoredValue :: "'v platform \<Rightarrow> 'v \<Rightarrow> 'v hook \<Rightarrow> 'v hook" where
  "setStoredValue env x h =
     emit (SetStoredValue x)
       (if instanceofFunction env x then
          (case call env x (cell h) of
             Inr y \<Rightarrow> h\<lparr>cell := y\<rparr>
           | Inl e \<Rightarrow> h\<lparr>renderError := Some e\<rparr>)
        else h\<lparr>cell := x\<rparr>)"

text \<open>\<open>setItem\<close> takes a string: \<open>undefined\<close> is stored as the text \<open>undefined\<close>.\<close>

definition toString :: "string option \<Rightarrow> string" where
  "toString text = (case text of None \<Rightarrow> ''undefined'' | Some s \<Rightarrow> s)"

text \<open>The three messages, as the template literals build them.\<close>

definition msg_recuperar :: "string \<Rightarrow> string" where
  "msg_recuperar key = ''Erro ao recuperar '' @ key @ '' do localStorage:''"

definition msg_salvar :: "string \<Rightarrow> string" where
  "msg_salvar key = ''Erro ao salvar '' @ key @ '' no localStorage:''"

definition msg_atualizar :: "string \<Rightarrow> string" where
  "msg_atualizar key = ''Erro ao atualizar '' @ key @ '' do localStorage:''"

subsection \<open>Reading: the initializer and the effect\<close>

text \<open>
  Both \<open>try\<close> blocks evaluate \<open>item ? JSON.parse(item) : initialValue\<close> after
  \<open>getItem\<close>. \<open>item\<close> is \<open>null\<close> (no entry: falsy) or a string, and the
  empty string is falsy.
\<close>

definition truthy :: "string \<Rightarrow> bool" where
  "truthy s = (s \<noteq> [])"

definition parsedOrInitial ::
  "'v platform \<Rightarrow> string \<Rightarrow> 'v \<Rightarrow> ('v, 'z) world_scheme \<Rightarrow> exn + 'v" where
  "parsedOrInitial env key initialValue w =
     (case getItem env key w of
        Inl e \<Rightarrow> Inl e
      | Inr None \<Rightarrow> Inr initialValue
      | Inr (Some item) \<Rightarrow>
          (if truthy item then JSON_parse env item else Inr initialValue))"

text \<open>Lines 25 to 36: the function given to \<open>useState\<close>; it returns the first state.\<close>

definition initializer ::
  "'v platform \<Rightarrow> string \<Rightarrow> 'v \<Rightarrow> ('v, 'z) world_scheme \<Rightarrow> 'v \<times> ('v, 'z) world_scheme" where
  "initializer env key initialValue w =
     (case parsedOrInitial env key initialValue w of
        Inr v \<Rightarrow> (v, w)
      | Inl e \<Rightarrow> (initialValue, console_error (msg_recuperar key) e w))"

text \<open>Lines 56 to 64: the effect with dependencies \<open>[key, initialValue]\<close>.\<close>

definition keySyncEffect :: "'v platform \<Rightarrow> string \<Rightarrow> 'v \<Rightarrow> 'v hook \<Rightarrow> 'v hook" where
  "keySyncEffect env key initialValue h =
     (case parsedOrInitial env key initialValue h of
        Inr v \<Rightarrow> setStoredValue env v h
      | Inl e \<Rightarrow> setStoredValue env initialValue (console_error (msg_atualizar key) e h))"

subsection \<open>Writing: \<open>setValue\<close>\<close>

text \<open>Lines 42 and 43. \<open>storedValue\<close> is the constant of the render that made the closure.\<close>

definition valueToStore :: "'v platform \<Rightarrow> 'v \<Rightarrow> 'v \<Rightarrow> exn + 'v" where
  "valueToStore env storedValue value =
     (if instanceofFunction env value then call env value storedValue else Inr value)"

text \<open>The body of the \<open>try\<close>, lines 41 to 49: an exception leaves it at once.\<close>

definition setValue_try ::
  "'v platform \<Rightarrow> string \<Rightarrow> 'v \<Rightarrow> 'v \<Rightarrow> 'v hook \<Rightarrow> (exn + unit) \<times> 'v hook" where
  "setValue_try env key storedValue value h =
     (case valueToStore env storedValue value of
        Inl e \<Rightarrow> (Inl e, h)
      | Inr v \<Rightarrow>
          (case JSON_stringify env v of
             Inl e \<Rightarrow> (Inl e, setStoredValue env v h)
           | Inr text \<Rightarrow> setItem env key (toString text) (setStoredValue env v h)))"

text \<open>
  Lines 39 to 53. The result is what the caller gets: \<open>Inr ()\<close> when the function
  returns (it returns \<open>undefined\<close>), \<open>Inl e\<close> if \<open>e\<close> left it.
\<close>

definition setValue ::
  "'v platform \<Rightarrow> string \<Rightarrow> 'v \<Rightarrow> 'v \<Rightarrow> 'v hook \<Rightarrow> (exn + unit) \<times> 'v hook" where
  "setValue env key storedValue value h =
     (case setValue_try env key storedValue value h of
        (Inl e, h') \<Rightarrow> (Inr (), console_error (msg_salvar key) e h')
      | (Inr u, h') \<Rightarrow> (Inr u, h'))"

subsection \<open>The hook: mounting and rendering\<close>

text \<open>
  A render returns \<open>[storedValue, setValue]\<close>: the state cell's value and a writer that
  closes over this render's \<open>key\<close> and \<open>storedValue\<close>. The initializer runs in
  the first render only: a later render, also one with another \<open>key\<close>, gets the
  state as it is. (This is the render of a hook whose \<open>renderError\<close> is not set.)
\<close>

definition useLocalStorage ::
  "'v platform \<Rightarrow> string \<Rightarrow> 'v hook \<Rightarrow> 'v \<times> ('v \<Rightarrow> 'v hook \<Rightarrow> (exn + unit) \<times> 'v hook)" where
  "useLocalStorage env key h = (cell h, setValue env key (cell h))"

text \<open>Mounting runs the initializer, then (after the first render) the effect.\<close>

definition mount :: "'v platform \<Rightarrow> string \<Rightarrow> 'v \<Rightarrow> ('v, 'z) world_scheme \<Rightarrow> 'v hook" where
  "mount env key initialValue w =
     (case initializer env key initialValue w of
        (v, w') \<Rightarrow>
          keySyncEffect env key initialValue
            \<lparr>slots = slots w', trace = trace w', cell = v, renderError = None\<rparr>)"

subsection \<open>Counting effects\<close>

fun isCellUpdate :: "'v event \<Rightarrow> bool" where
  "isCellUpdate (SetStoredValue x) = True"
| "isCellUpdate (SetItem k s) = False"
| "isCellUpdate (ConsoleError m e) = False"

fun isSetAttempt :: "'v event \<Rightarrow> bool" where
  "isSetAttempt (SetStoredValue x) = False"
| "isSetAttempt (SetItem k s) = True"
| "isSetAttempt (ConsoleError m e) = False"

fun isDiagnostic :: "'v event \<Rightarrow> bool" where
  "isDiagnostic (SetStoredValue x) = False"
| "isDiagnostic (SetItem k s) = False"
| "isDiagnostic (ConsoleError m e) = True"

definition cellUpdates :: "'v event list \<Rightarrow> nat" where
  "cellUpdates t = length (filter isCellUpdate t)"

definition setAttempts :: "'v event list \<Rightarrow> nat" where
  "setAttempts t = length (filter isSetAttempt t)"

definition diagnostics :: "'v event list \<Rightarrow> nat" where
  "diagnostics t = length (filter isDiagnostic t)"

subsection \<open>Serializable values\<close>

text \<open>
  A value that is data, not a function, that \<open>JSON.stringify\<close> turns into a text and
  \<open>JSON.parse\<close> turns back into the same value. A JSON text is never empty.
\<close>

definition serializable :: "'v platform \<Rightarrow> 'v \<Rightarrow> bool" where
  "serializable env v =
     (\<not> instanceofFunction env v \<and>
      (case JSON_stringify env v of
         Inl e \<Rightarrow> False
       | Inr None \<Rightarrow> False
       | Inr (Some s) \<Rightarrow> s \<noteq> [] \<and> JSON_parse env s = Inr v))"

subsection \<open>A small platform to run the hook on\<close>

text \<open>
  Values: \<open>null\<close>, the booleans and five functions, \<open>x => !x\<close>,
  \<open>() => { throw 'boom' }\<close>, \<open>function self() { return self }\<close>, and the pair
  \<open>function ping() { return pong }\<close>, \<open>function pong() { return ping }\<close>. JSON
  knows the texts \<open>null\<close>, \<open>true\<close> and \<open>false\<close>; a function has no JSON
  text.
\<close>

datatype fn = Negate | Boom | Self | Ping | Pong

datatype jsval = JNull | JBool bool | Fn fn

fun isFn :: "jsval \<Rightarrow> bool" where
  "isFn (Fn f) = True"
| "isFn JNull = False"
| "isFn (JBool b) = False"

fun falsy :: "jsval \<Rightarrow> bool" where
  "falsy JNull = True"
| "falsy (JBool b) = (\<not> b)"
| "falsy (Fn f) = False"

fun apply_fn :: "jsval \<Rightarrow> jsval \<Rightarrow> exn + jsval" where
  "apply_fn (Fn Negate) x = Inr (JBool (falsy x))"
| "apply_fn (Fn Boom) x = Inl (Thrown ''boom'')"
| "apply_fn (Fn Self) x = Inr (Fn Self)"
| "apply_fn (Fn Ping) x = Inr (Fn Pong)"
| "apply_fn (Fn Pong) x = Inr (Fn Ping)"
| "apply_fn JNull x = Inl TypeError"
| "apply_fn (JBool b) x = Inl TypeError"

fun stringify :: "jsval \<Rightarrow> exn + string option" where
  "stringify JNull = Inr (Some ''null'')"
| "stringify (JBool b) = Inr (Some (if b then ''true'' else ''false''))"
| "stringify (Fn f) = Inr None"

definition parse :: "string \<Rightarrow> exn + jsval" where
  "parse s =
     (if s = ''null'' then Inr JNull
      else if s = ''true'' then Inr (JBool True)
      else if s = ''false'' then Inr (JBool False)
      else Inl SyntaxError)"

definition browser :: "jsval platform" where
  "browser =
     \<lparr>instanceofFunction = isFn, call = apply_fn, JSON_parse = parse,
      JSON_stringify = stringify, getItem_fault = (\<lambda>k. None),
      setItem_fault = (\<lambda>m k s. None)\<rparr>"

text \<open>The same with a full storage, and with storage access denied.\<close>

definition browser_full :: "jsval platform" where
  "browser_full = browser\<lparr>setItem_fault := (\<lambda>m k s. Some QuotaExceededError)\<rparr>"

definition browser_denied :: "jsval platform" where
  "browser_denied = browser\<lparr>getItem_fault := (\<lambda>k. Some SecurityError)\<rparr>"

definition emptyWorld :: "jsval world" where
  "emptyWorld = \<lparr>slots = Map.empty, trace = []\<rparr>"

definition worldWith :: "string \<Rightarrow> string \<Rightarrow> jsval world" where
  "worldWith k s = \<lparr>slots = [k \<mapsto> s], trace = []\<rparr>"

definition hookWith :: "jsval \<Rightarrow> jsval hook" where
  "hookWith v = \<lparr>slots = Map.empty, trace = [], cell = v, renderError = None\<rparr>"

section \<open>Basic facts about the state operations\<close>

lemma slots_emit [simp]: "slots (emit ev w) = slots w"
  by (simp add: emit_def)

lemma trace_emit [simp]: "trace (emit ev w) = trace w @ [ev]"
  by (simp add: emit_def)

lemma cell_emit [simp]: "cell (emit ev h) = cell h"
  by (simp add: emit_def)

lemma slots_console_error [simp]: "slots (console_error m e w) = slots w"
  by (simp add: console_error_def)

lemma trace_console_error [simp]:
  "trace (console_error m e w) = trace w @ [ConsoleError m e]"
  by (simp add: console_error_def)

lemma cell_console_error [simp]: "cell (console_error m e h) = cell h"
  by (simp add: console_error_def)

lemma slots_setStoredValue [simp]: "slots (setStoredValue env x h) = slots h"
  by (simp add: setStoredValue_def split: sum.splits)

lemma trace_setStoredValue [simp]:
  "trace (setStoredValue env x h) = trace h @ [SetStoredValue x]"
  by (simp add: setStoredValue_def split: sum.splits)

text \<open>The state after a call of the setter: a function argument is applied, not stored.\<close>

lemma cell_setStoredValue:
  "cell (setStoredValue env x h) =
     (if instanceofFunction env x
      then (case call env x (cell h) of Inl e \<Rightarrow> cell h | Inr y \<Rightarrow> y)
      else x)"
  by (simp add: setStoredValue_def split: sum.splits)

lemma cell_setStoredValue_data [simp]:
  "\<not> instanceofFunction env x \<Longrightarrow> cell (setStoredValue env x h) = x"
  by (simp add: cell_setStoredValue)

lemma setStoredValue_data:
  "\<not> instanceofFunction env x \<Longrightarrow>
   setStoredValue env x h = emit (SetStoredValue x) (h\<lparr>cell := x\<rparr>)"
  by (simp add: setStoredValue_def)

lemma setStoredValue_JSON_parse [simp]:
  "setStoredValue (env\<lparr>JSON_parse := p\<rparr>) x h = setStoredValue env x h"
  by (simp add: setStoredValue_def)

lemma cellUpdates_append [simp]: "cellUpdates (t @ u) = cellUpdates t + cellUpdates u"
  by (simp add: cellUpdates_def)

lemma setAttempts_append [simp]: "setAttempts (t @ u) = setAttempts t + setAttempts u"
  by (simp add: setAttempts_def)

lemma diagnostics_append [simp]: "diagnostics (t @ u) = diagnostics t + diagnostics u"
  by (simp add: diagnostics_def)

lemma count_Nil [simp]: "cellUpdates [] = 0" "setAttempts [] = 0" "diagnostics [] = 0"
  by (simp_all add: cellUpdates_def setAttempts_def diagnostics_def)

lemma count_Cons [simp]:
  "cellUpdates (ev # t) = (if isCellUpdate ev then 1 else 0) + cellUpdates t"
  "setAttempts (ev # t) = (if isSetAttempt ev then 1 else 0) + setAttempts t"
  "diagnostics (ev # t) = (if isDiagnostic ev then 1 else 0) + diagnostics t"
  by (simp_all add: cellUpdates_def setAttempts_def diagnostics_def)

text \<open>What \<open>setItem\<close> leaves behind, by whether it throws.\<close>

lemma setItem_fails:
  "setItem_fault env (slots w) key s = Some e \<Longrightarrow>
   setItem env key s w = (Inl e, emit (SetItem key s) w)"
  by (simp add: setItem_def)

lemma setItem_succeeds:
  "setItem_fault env (slots w) key s = None \<Longrightarrow>
   setItem env key s w = (Inr (), emit (SetItem key s) (w\<lparr>slots := (slots w)(key \<mapsto> s)\<rparr>))"
  by (simp add: setItem_def)

lemma trace_setItem: "trace (snd (setItem env key s w)) = trace w @ [SetItem key s]"
  by (simp add: setItem_def split: option.splits)

lemma cell_setItem: "cell (snd (setItem env key s h)) = cell h"
  by (simp add: setItem_def split: option.splits)

text \<open>The read paths never touch the storage and never call \<open>setItem\<close>.\<close>

lemma initializer_slots: "slots (snd (initializer env key iv w)) = slots w"
  by (simp add: initializer_def split: sum.splits)

lemma initializer_setAttempts:
  "setAttempts (trace (snd (initializer env key iv w))) = setAttempts (trace w)"
  by (simp add: initializer_def split: sum.splits)

lemma keySyncEffect_slots: "slots (keySyncEffect env key iv h) = slots h"
  by (simp add: keySyncEffect_def split: sum.splits)

lemma keySyncEffect_setAttempts:
  "setAttempts (trace (keySyncEffect env key iv h)) = setAttempts (trace h)"
  by (simp add: keySyncEffect_def split: sum.splits)

text \<open>The effect hands to the state setter what the initializer would return.\<close>

lemma keySyncEffect_setter:
  "keySyncEffect env key iv h =
     setStoredValue env (fst (initializer env key iv h))
       (case parsedOrInitial env key iv h of
          Inl e \<Rightarrow> console_error (msg_atualizar key) e h
        | Inr v \<Rightarrow> h)"
  by (simp add: keySyncEffect_def initializer_def split: sum.splits)

lemma keySyncEffect_cell:
  "\<not> instanceofFunction env (fst (initializer env key iv h)) \<Longrightarrow>
   cell (keySyncEffect env key iv h) = fst (initializer env key iv h)"
  by (simp add: keySyncEffect_setter)

lemma parsedOrInitial_absent:
  "slots w key = None \<Longrightarrow>
   parsedOrInitial env key iv w =
     (case getItem_fault env key of Some e \<Rightarrow> Inl e | None \<Rightarrow> Inr iv)"
  by (simp add: parsedOrInitial_def getItem_def split: option.splits)

lemma parsedOrInitial_empty:
  "slots w key = Some [] \<Longrightarrow>
   parsedOrInitial env key iv w =
     (case getItem_fault env key of Some e \<Rightarrow> Inl e | None \<Rightarrow> Inr iv)"
  by (simp add: parsedOrInitial_def getItem_def truthy_def split: option.splits)

lemma parsedOrInitial_present:
  "getItem_fault env key = None \<Longrightarrow> slots w key = Some s \<Longrightarrow> s \<noteq> [] \<Longrightarrow>
   parsedOrInitial env key iv w = JSON_parse env s"
  by (simp add: parsedOrInitial_def getItem_def truthy_def)

lemma parsedOrInitial_get_fails:
  "getItem_fault env key = Some e \<Longrightarrow> parsedOrInitial env key iv w = Inl e"
  by (simp add: parsedOrInitial_def getItem_def)

text \<open>A literal that can be encoded: what the \<open>try\<close> body of \<open>setValue\<close> does.\<close>

lemma setValue_try_literal:
  "\<not> instanceofFunction env v \<Longrightarrow> JSON_stringify env v = Inr text \<Longrightarrow>
   setValue_try env key sv v h = setItem env key (toString text) (setStoredValue env v h)"
  by (simp add: setValue_try_def valueToStore_def)

lemma cell_setValue_try:
  "cell (snd (setValue_try env key sv value h)) =
     (case valueToStore env sv value of
        Inl e \<Rightarrow> cell h
      | Inr v \<Rightarrow> cell (setStoredValue env v h))"
  by (simp add: setValue_try_def cell_setItem split: sum.splits)

lemma cell_setValue:
  "cell (snd (setValue env key sv value h)) = cell (snd (setValue_try env key sv value h))"
  by (simp add: setValue_def split: prod.splits sum.splits)

text \<open>
  Across a render the second writer sees the first write: here updaters do compose (the
  values are data, so the state setter stores them as they are).
\<close>

lemma setValue_after_rerender:
  assumes "valueToStore env (cell h) f1 = Inr v1" and "\<not> instanceofFunction env v1"
    and "valueToStore env v1 f2 = Inr v2" and "\<not> instanceofFunction env v2"
  shows "cell (snd (snd (useLocalStorage env key (snd (snd (useLocalStorage env key h) f1 h)))
           f2 (snd (snd (useLocalStorage env key h) f1 h)))) = v2"
  using assms by (simp add: useLocalStorage_def cell_setValue cell_setValue_try)

text \<open>
  Within one render both writers hold the same \<open>storedValue\<close>: the second updater is
  applied to the value the first one was applied to.
\<close>

lemma setValue_same_render:
  assumes "valueToStore env (cell h) f2 = Inr v2" and "\<not> instanceofFunction env v2"
  shows "cell (snd (snd (useLocalStorage env key h) f2
           (snd (snd (useLocalStorage env key h) f1 h)))) = v2"
  using assms by (simp add: useLocalStorage_def cell_setValue cell_setValue_try)

section \<open>Properties of the hook\<close>

text \<open>
  C1. Round trip: after a successful write of a serializable value \<open>v\<close> under any key,
  the state cell holds \<open>v\<close>, and a fresh binding to the same key hydrates to \<open>v\<close>:
  its initializer returns \<open>v\<close>, and the mounted hook's cell is \<open>v\<close>, whatever its
  fallback. The write is successful when the \<open>try\<close> body ends without an
  exception; the fresh binding can read the storage.
\<close>

theorem C1_write_then_hydrate:
  assumes "serializable env v"
    and "fst (setValue_try env key storedValue v h) = Inr ()"
    and "getItem_fault env key = None"
  shows "cell (snd (setValue env key storedValue v h)) = v \<and>
         fst (initializer env key fallback (snd (setValue env key storedValue v h))) = v \<and>
         cell (mount env key fallback (snd (setValue env key storedValue v h))) = v"
proof -
  from assms(1) obtain s where
    lit: "\<not> instanceofFunction env v" and enc: "JSON_stringify env v = Inr (Some s)"
    and ne: "s \<noteq> []" and dec: "JSON_parse env s = Inr v"
    by (auto simp: serializable_def split: sum.splits option.splits)
  have body: "setValue_try env key storedValue v h = setItem env key s (setStoredValue env v h)"
    using setValue_try_literal [OF lit enc] by (simp add: toString_def)
  have ok: "setItem_fault env (slots h) key s = None"
    using assms(2) body by (simp add: setItem_def split: option.splits)
  define h' where "h' = snd (setValue env key storedValue v h)"
  have h': "h' = emit (SetItem key s) ((setStoredValue env v h)\<lparr>slots := (slots h)(key \<mapsto> s)\<rparr>)"
    using ok by (simp add: h'_def setValue_def body setItem_def)
  have c: "cell h' = v" and sl: "slots h' key = Some s"
    using lit by (simp_all add: h')
  have rd: "parsedOrInitial env key fallback h' = Inr v"
    using parsedOrInitial_present [OF assms(3) sl ne] dec by simp
  have ini: "initializer env key fallback h' = (v, h')"
    by (simp add: initializer_def rd)
  have "parsedOrInitial env key fallback
          \<lparr>slots = slots h', trace = trace h', cell = v, renderError = None\<rparr> = Inr v"
    using assms(3) sl ne dec by (simp add: parsedOrInitial_def getItem_def truthy_def)
  then have "cell (mount env key fallback h') = v"
    using lit by (simp add: mount_def ini keySyncEffect_def)
  with c ini show ?thesis by (simp add: h'_def)
qed

theorem C1_write_then_hydrate_witness:
  "serializable browser (JBool True) \<and>
   fst (setValue_try browser ''user'' JNull (JBool True) (hookWith JNull)) = Inr () \<and>
   getItem_fault browser ''user'' = None \<and>
   cell (snd (setValue browser ''user'' JNull (JBool True) (hookWith JNull))) = JBool True \<and>
   fst (initializer browser ''user'' (JBool False)
         (snd (setValue browser ''user'' JNull (JBool True) (hookWith JNull)))) = JBool True \<and>
   cell (mount browser ''user'' (JBool False)
         (snd (setValue browser ''user'' JNull (JBool True) (hookWith JNull)))) = JBool True"
proof -
  have a: "serializable browser (JBool True)"
    by (simp add: serializable_def browser_def parse_def)
  have b: "fst (setValue_try browser ''user'' JNull (JBool True) (hookWith JNull)) = Inr ()"
    by (simp add: setValue_try_def valueToStore_def setItem_def browser_def)
  have c: "getItem_fault browser ''user'' = None"
    by (simp add: browser_def)
  show ?thesis
    using a b c C1_write_then_hydrate [OF a b c, of "JBool False"] by simp
qed

text \<open>
  C2, as the hook has it. When \<open>setItem\<close> throws during the write of a value \<open>v\<close>
  that is not a function, the state cell holds \<open>v\<close> afterwards (no rollback) and the
  storage is as it was; the exception is logged with \<open>console.error\<close> and the call
  returns normally. The caller receives no failure result: \<open>setValue\<close> returns
  \<open>undefined\<close> whether or not the entry was stored.
\<close>

theorem C2_persist_failure:
  assumes "\<not> instanceofFunction env v"
    and "JSON_stringify env v = Inr text"
    and "setItem_fault env (slots h) key (toString text) = Some e"
  shows "fst (setValue env key storedValue v h) = Inr () \<and>
         cell (snd (setValue env key storedValue v h)) = v \<and>
         slots (snd (setValue env key storedValue v h)) = slots h \<and>
         trace (snd (setValue env key storedValue v h)) =
           trace h @ [SetStoredValue v, SetItem key (toString text),
                      ConsoleError (msg_salvar key) e]"
proof -
  have "setValue_try env key storedValue v h =
          (Inl e, emit (SetItem key (toString text)) (setStoredValue env v h))"
    using setValue_try_literal [OF assms(1,2)] assms(3) by (simp add: setItem_fails)
  then show ?thesis using assms(1) by (simp add: setValue_def)
qed

theorem C2_persist_failure_witness:
  "\<not> instanceofFunction browser_full (JBool True) \<and>
   JSON_stringify browser_full (JBool True) = Inr (Some ''true'') \<and>
   setItem_fault browser_full (slots (hookWith JNull)) ''user'' (toString (Some ''true''))
     = Some QuotaExceededError \<and>
   fst (setValue browser_full ''user'' JNull (JBool True) (hookWith JNull)) = Inr () \<and>
   cell (snd (setValue browser_full ''user'' JNull (JBool True) (hookWith JNull))) = JBool True \<and>
   slots (snd (setValue browser_full ''user'' JNull (JBool True) (hookWith JNull))) ''user''
     = None \<and>
   trace (snd (setValue browser_full ''user'' JNull (JBool True) (hookWith JNull))) =
     [SetStoredValue (JBool True), SetItem ''user'' ''true'',
      ConsoleError ''Erro ao salvar user no localStorage:'' QuotaExceededError]"
proof -
  have a: "\<not> instanceofFunction browser_full (JBool True)"
    by (simp add: browser_full_def browser_def)
  have b: "JSON_stringify browser_full (JBool True) = Inr (Some ''true'')"
    by (simp add: browser_full_def browser_def)
  have c: "setItem_fault browser_full (slots (hookWith JNull)) ''user''
             (toString (Some ''true'')) = Some QuotaExceededError"
    by (simp add: browser_full_def browser_def)
  show ?thesis
    using a b c C2_persist_failure [OF a b c, of JNull]
    by (simp add: hookWith_def toString_def msg_salvar_def)
qed

text \<open>
  C2 as stated fails: with a full storage the write of \<open>true\<close> throws inside
  \<open>setItem\<close>, and the call returns exactly what a write that stored the entry returns.
\<close>

theorem C2_counterexample:
  "setItem_fault browser_full (slots (hookWith JNull)) ''user'' ''true''
     = Some QuotaExceededError \<and>
   slots (snd (setValue browser_full ''user'' JNull (JBool True) (hookWith JNull))) ''user''
     = None \<and>
   fst (setValue browser_full ''user'' JNull (JBool True) (hookWith JNull)) = Inr () \<and>
   slots (snd (setValue browser ''user'' JNull (JBool True) (hookWith JNull))) ''user''
     = Some ''true'' \<and>
   fst (setValue browser ''user'' JNull (JBool True) (hookWith JNull)) = Inr ()"
  by (simp add: setValue_def setValue_try_def valueToStore_def setItem_def toString_def
      browser_full_def browser_def hookWith_def)

text \<open>
  C3 at a concrete input: the state is \<open>false\<close>, and one render's writer is called twice
  with the updater \<open>x => !x\<close>. Composing the two updaters gives \<open>false\<close>; the hook
  ends with \<open>true\<close> in the cell and in the storage, since both calls negate the
  \<open>storedValue\<close> of that render.
\<close>

theorem C3_two_updaters_one_render:
  "apply_fn (Fn Negate) (JBool False) = Inr (JBool True) \<and>
   apply_fn (Fn Negate) (JBool True) = Inr (JBool False) \<and>
   cell (snd (snd (useLocalStorage browser ''flag'' (hookWith (JBool False))) (Fn Negate)
     (snd (snd (useLocalStorage browser ''flag'' (hookWith (JBool False))) (Fn Negate)
       (hookWith (JBool False)))))) = JBool True \<and>
   slots (snd (snd (useLocalStorage browser ''flag'' (hookWith (JBool False))) (Fn Negate)
     (snd (snd (useLocalStorage browser ''flag'' (hookWith (JBool False))) (Fn Negate)
       (hookWith (JBool False)))))) ''flag'' = Some ''true''"
  by (simp add: useLocalStorage_def setValue_def setValue_try_def valueToStore_def setItem_def
      toString_def browser_def hookWith_def)

text \<open>
  C4, as the hook has it. If \<open>getItem\<close> throws, or the entry is a non-empty string that
  \<open>JSON.parse\<close> rejects, hydration yields the fallback, logs the exception once with
  \<open>console.error\<close>, raises nothing and leaves the storage as it is, without a call of
  \<open>setItem\<close>. This holds for the initializer of a fresh binding and for the effect of
  a mounted one on the same storage (the effect hands the fallback to the state setter).
\<close>

theorem C4_hydration_failure:
  assumes "getItem_fault env key = Some e \<or>
           (getItem_fault env key = None \<and> slots w key = Some s \<and> s \<noteq> [] \<and>
            JSON_parse env s = Inl e)"
    and "slots h = slots w"
  shows "initializer env key fallback w = (fallback, console_error (msg_recuperar key) e w) \<and>
         slots (snd (initializer env key fallback w)) = slots w \<and>
         setAttempts (trace (snd (initializer env key fallback w))) = setAttempts (trace w) \<and>
         keySyncEffect env key fallback h =
           setStoredValue env fallback (console_error (msg_atualizar key) e h) \<and>
         slots (keySyncEffect env key fallback h) = slots h \<and>
         setAttempts (trace (keySyncEffect env key fallback h)) = setAttempts (trace h)"
proof -
  have rw: "parsedOrInitial env key fallback w = Inl e"
    using assms(1) parsedOrInitial_get_fails [of env key e fallback w]
      parsedOrInitial_present [of env key w s fallback]
    by auto
  have "slots h key = slots w key"
    by (simp add: assms(2))
  then have rh: "parsedOrInitial env key fallback h = Inl e"
    using assms(1) parsedOrInitial_get_fails [of env key e fallback h]
      parsedOrInitial_present [of env key h s fallback]
    by auto
  from rw rh show ?thesis
    by (simp add: initializer_def keySyncEffect_def)
qed

theorem C4_hydration_failure_witness:
  "(getItem_fault browser ''user'' = Some SyntaxError \<or>
    (getItem_fault browser ''user'' = None \<and>
     slots (worldWith ''user'' ''not-json'') ''user'' = Some ''not-json'' \<and>
     ''not-json'' \<noteq> [] \<and> JSON_parse browser ''not-json'' = Inl SyntaxError)) \<and>
   slots (hookWith (JBool True)\<lparr>slots := [''user'' \<mapsto> ''not-json'']\<rparr>) =
     slots (worldWith ''user'' ''not-json'') \<and>
   initializer browser ''user'' JNull (worldWith ''user'' ''not-json'') =
     (JNull, \<lparr>slots = [''user'' \<mapsto> ''not-json''],
              trace = [ConsoleError ''Erro ao recuperar user do localStorage:'' SyntaxError]\<rparr>) \<and>
   keySyncEffect browser ''user'' JNull
       (hookWith (JBool True)\<lparr>slots := [''user'' \<mapsto> ''not-json'']\<rparr>) =
     \<lparr>slots = [''user'' \<mapsto> ''not-json''],
      trace = [ConsoleError ''Erro ao atualizar user do localStorage:'' SyntaxError,
               SetStoredValue JNull],
      cell = JNull, renderError = None\<rparr> \<and>
   getItem_fault browser_denied ''user'' = Some SecurityError \<and>
   initializer browser_denied ''user'' JNull emptyWorld =
     (JNull, \<lparr>slots = Map.empty,
              trace = [ConsoleError ''Erro ao recuperar user do localStorage:'' SecurityError]\<rparr>)"
proof -
  have a: "getItem_fault browser ''user'' = Some SyntaxError \<or>
    (getItem_fault browser ''user'' = None \<and>
     slots (worldWith ''user'' ''not-json'') ''user'' = Some ''not-json'' \<and>
     ''not-json'' \<noteq> [] \<and> JSON_parse browser ''not-json'' = Inl SyntaxError)"
    by (simp add: browser_def parse_def worldWith_def)
  have a': "slots (hookWith (JBool True)\<lparr>slots := [''user'' \<mapsto> ''not-json'']\<rparr>) =
     slots (worldWith ''user'' ''not-json'')"
    by (simp add: hookWith_def worldWith_def)
  have b: "getItem_fault browser_denied ''user'' = Some SecurityError"
    by (simp add: browser_denied_def browser_def)
  have b': "slots (hookWith JNull) = slots emptyWorld"
    by (simp add: hookWith_def emptyWorld_def)
  have nf: "\<not> instanceofFunction browser JNull"
    by (simp add: browser_def)
  show ?thesis
    using a a' b C4_hydration_failure [OF a a', of JNull]
      C4_hydration_failure [OF disjI1 [OF b] b', of JNull]
    by (simp add: hookWith_def worldWith_def emptyWorld_def console_error_def emit_def
        setStoredValue_data [OF nf] msg_recuperar_def msg_atualizar_def)
qed

text \<open>
  C4 as stated fails on the empty string: it is an entry that \<open>JSON.parse\<close> rejects,
  yet hydration returns the fallback without any diagnostic.
\<close>

theorem C4_counterexample:
  "slots (worldWith ''user'' '''') ''user'' = Some '''' \<and>
   JSON_parse browser '''' = Inl SyntaxError \<and>
   fst (initializer browser ''user'' JNull (worldWith ''user'' '''')) = JNull \<and>
   diagnostics (trace (snd (initializer browser ''user'' JNull (worldWith ''user'' '''')))) = 0"
  by (simp add: initializer_def parsedOrInitial_def getItem_def truthy_def browser_def
      parse_def worldWith_def)

text \<open>
  C5. For a key with no entry, hydration yields exactly the fallback and writes nothing: the
  initializer returns the fallback, whatever it is; the storage is unchanged (the key still
  has no entry) and \<open>setItem\<close> is not called, by the initializer and by the whole
  mount. Only \<open>setValue\<close> calls \<open>setItem\<close>. The effect that follows the first
  render hands the same fallback to the state setter, so the state of the mounted hook is
  the fallback too when the fallback is data (a function would be taken as an updater).
\<close>

theorem C5_empty_slot:
  assumes "slots w key = None"
  shows "fst (initializer env key fallback w) = fallback \<and>
         slots (snd (initializer env key fallback w)) = slots w \<and>
         setAttempts (trace (snd (initializer env key fallback w))) = setAttempts (trace w) \<and>
         slots (mount env key fallback w) = slots w \<and>
         slots (mount env key fallback w) key = None \<and>
         setAttempts (trace (mount env key fallback w)) = setAttempts (trace w) \<and>
         cellUpdates (trace (mount env key fallback w)) = cellUpdates (trace w) + 1 \<and>
         last (trace (mount env key fallback w)) = SetStoredValue fallback \<and>
         (\<not> instanceofFunction env fallback \<longrightarrow> cell (mount env key fallback w) = fallback)"
proof -
  have rd: "parsedOrInitial env key fallback w =
      (case getItem_fault env key of Some e \<Rightarrow> Inl e | None \<Rightarrow> Inr fallback)"
    by (rule parsedOrInitial_absent [OF assms])
  have ini: "fst (initializer env key fallback w) = fallback"
    by (simp add: initializer_def rd split: option.splits)
  obtain v w' where iw: "initializer env key fallback w = (v, w')"
    by (cases "initializer env key fallback w")
  have v: "v = fallback" using ini iw by simp
  have sl: "slots w' = slots w" using initializer_slots [of env key fallback w] iw by simp
  have at: "setAttempts (trace w') = setAttempts (trace w)"
    using initializer_setAttempts [of env key fallback w] iw by simp
  have cu: "cellUpdates (trace w') = cellUpdates (trace w)"
    using iw by (auto simp: initializer_def split: sum.splits)
  define h where "h = \<lparr>slots = slots w', trace = trace w', cell = v, renderError = None\<rparr>"
  have m: "mount env key fallback w = keySyncEffect env key fallback h"
    by (simp add: mount_def iw h_def)
  have "slots h key = None" by (simp add: h_def sl assms)
  then have rh: "parsedOrInitial env key fallback h =
      (case getItem_fault env key of Some e \<Rightarrow> Inl e | None \<Rightarrow> Inr fallback)"
    by (rule parsedOrInitial_absent)
  have c: "\<not> instanceofFunction env fallback \<longrightarrow> cell (mount env key fallback w) = fallback"
    by (simp add: m keySyncEffect_def rh split: option.splits)
  have t: "trace (mount env key fallback w) =
      trace h @ (case getItem_fault env key of
                   None \<Rightarrow> [SetStoredValue fallback]
                 | Some e \<Rightarrow> [ConsoleError (msg_atualizar key) e, SetStoredValue fallback])"
    by (simp add: m keySyncEffect_def rh split: option.splits)
  have l: "last (trace (mount env key fallback w)) = SetStoredValue fallback"
    unfolding t by (simp split: option.splits)
  have "cellUpdates (trace h) = cellUpdates (trace w)"
    by (simp add: h_def cu)
  then have u: "cellUpdates (trace (mount env key fallback w)) = cellUpdates (trace w) + 1"
    unfolding t by (simp split: option.splits)
  have s: "slots (mount env key fallback w) = slots w"
    by (simp add: m keySyncEffect_slots h_def sl)
  have a: "setAttempts (trace (mount env key fallback w)) = setAttempts (trace w)"
    by (simp add: m keySyncEffect_setAttempts h_def at)
  from ini c l u s a assms show ?thesis
    by (simp add: initializer_slots initializer_setAttempts)
qed

theorem C5_empty_slot_witness:
  "slots emptyWorld ''user'' = None \<and>
   \<not> instanceofFunction browser (JBool False) \<and>
   initializer browser ''user'' (JBool False) emptyWorld = (JBool False, emptyWorld) \<and>
   initializer browser ''user'' (Fn Negate) emptyWorld = (Fn Negate, emptyWorld) \<and>
   cell (mount browser ''user'' (JBool False) emptyWorld) = JBool False \<and>
   slots (mount browser ''user'' (JBool False) emptyWorld) ''user'' = None \<and>
   trace (mount browser ''user'' (JBool False) emptyWorld) = [SetStoredValue (JBool False)]"
proof -
  have a: "slots emptyWorld ''user'' = None"
    by (simp add: emptyWorld_def)
  have f: "\<not> instanceofFunction browser (JBool False)"
    by (simp add: browser_def)
  have b: "initializer browser ''user'' (JBool False) emptyWorld = (JBool False, emptyWorld)"
    by (simp add: initializer_def parsedOrInitial_def getItem_def browser_def emptyWorld_def)
  have b': "initializer browser ''user'' (Fn Negate) emptyWorld = (Fn Negate, emptyWorld)"
    by (simp add: initializer_def parsedOrInitial_def getItem_def browser_def emptyWorld_def)
  have "mount browser ''user'' (JBool False) emptyWorld =
      keySyncEffect browser ''user'' (JBool False)
        \<lparr>slots = slots emptyWorld, trace = trace emptyWorld, cell = JBool False,
         renderError = None\<rparr>"
    by (simp add: mount_def b)
  then have c: "trace (mount browser ''user'' (JBool False) emptyWorld) =
      [SetStoredValue (JBool False)]"
    by (simp add: keySyncEffect_def parsedOrInitial_def getItem_def browser_def emptyWorld_def)
  from a f b b' c show ?thesis
    using C5_empty_slot [OF a, of browser "JBool False"] by simp
qed

text \<open>
  C6, as the hook has it. Every call of \<open>setValue\<close> makes at most one call of the state
  setter and at most one call of \<open>setItem\<close>. The state setter is called exactly once
  when the value to store was obtained (a literal, or an updater that returned), and not at
  all when the updater threw; \<open>setItem\<close> is called exactly once when the value was
  obtained and encoded, and not at all otherwise.
\<close>

theorem C6_effect_counts:
  "cellUpdates (trace (snd (setValue env key storedValue value h))) =
     cellUpdates (trace h) +
       (case valueToStore env storedValue value of Inl e \<Rightarrow> 0 | Inr v \<Rightarrow> 1) \<and>
   setAttempts (trace (snd (setValue env key storedValue value h))) =
     setAttempts (trace h) +
       (case valueToStore env storedValue value of
          Inl e \<Rightarrow> 0
        | Inr v \<Rightarrow> (case JSON_stringify env v of Inl e \<Rightarrow> 0 | Inr text \<Rightarrow> 1)) \<and>
   cellUpdates (trace (snd (setValue env key storedValue value h))) \<le> cellUpdates (trace h) + 1 \<and>
   setAttempts (trace (snd (setValue env key storedValue value h))) \<le> setAttempts (trace h) + 1"
proof -
  have tr: "trace (snd (setValue env key storedValue value h)) =
      trace h @
        (case valueToStore env storedValue value of
           Inl e \<Rightarrow> [ConsoleError (msg_salvar key) e]
         | Inr v \<Rightarrow>
             SetStoredValue v #
               (case JSON_stringify env v of
                  Inl e \<Rightarrow> [ConsoleError (msg_salvar key) e]
                | Inr text \<Rightarrow>
                    SetItem key (toString text) #
                      (case setItem_fault env (slots h) key (toString text) of
                         None \<Rightarrow> []
                       | Some e \<Rightarrow> [ConsoleError (msg_salvar key) e])))"
    by (simp add: setValue_def setValue_try_def setItem_def split: sum.splits option.splits)
  show ?thesis
    unfolding tr by (simp split: sum.splits option.splits)
qed

theorem C6_effect_counts_witness:
  "cellUpdates (trace (snd (setValue browser_full ''user'' JNull (JBool True) (hookWith JNull))))
     = 1 \<and>
   setAttempts (trace (snd (setValue browser_full ''user'' JNull (JBool True) (hookWith JNull))))
     = 1"
  using C6_effect_counts [of browser_full "''user''" JNull "JBool True" "hookWith JNull"]
  by (simp add: valueToStore_def browser_full_def browser_def hookWith_def)

text \<open>
  C6 as stated fails for an updater that throws: the exception leaves the \<open>try\<close> body
  before the state setter is reached, so the call makes no cell update.
\<close>

theorem C6_counterexample:
  "call browser (Fn Boom) JNull = Inl (Thrown ''boom'') \<and>
   trace (snd (setValue browser ''user'' JNull (Fn Boom) (hookWith JNull))) =
     [ConsoleError ''Erro ao salvar user no localStorage:'' (Thrown ''boom'')] \<and>
   cellUpdates (trace (snd (setValue browser ''user'' JNull (Fn Boom) (hookWith JNull)))) = 0"
  by (simp add: setValue_def setValue_try_def valueToStore_def browser_def hookWith_def
      msg_salvar_def)

text \<open>
  C7, as the hook has it. When the key changes, React runs the effect for the new key
  after the render. The effect hydrates for the new key on its own: once it has run, and
  the value it read (the decoded entry of the new key, or the fallback) is data, the state
  is that value, which is what the initializer of a fresh binding to the new key returns in
  the same storage, and the state held before, which came from the old key, has no
  influence on the result.
\<close>

theorem C7_key_change:
  assumes "\<not> instanceofFunction env (fst (initializer env key' fallback h))"
  shows "cell (keySyncEffect env key' fallback h) = fst (initializer env key' fallback h) \<and>
         keySyncEffect env key' fallback (h\<lparr>cell := old\<rparr>) =
           keySyncEffect env key' fallback h \<and>
         (cell (keySyncEffect env key' fallback h) = fallback \<or>
          (\<exists>s. slots h key' = Some s \<and>
               JSON_parse env s = Inr (cell (keySyncEffect env key' fallback h))))"
proof -
  have same: "parsedOrInitial env key' fallback (h\<lparr>cell := old\<rparr>) =
      parsedOrInitial env key' fallback h"
    by (simp add: parsedOrInitial_def getItem_def split: option.splits)
  have ini: "fst (initializer env key' fallback (h\<lparr>cell := old\<rparr>)) =
      fst (initializer env key' fallback h)"
    by (simp add: initializer_def same split: sum.splits)
  have c: "cell (keySyncEffect env key' fallback h) = fst (initializer env key' fallback h)"
    by (rule keySyncEffect_cell [OF assms])
  have a: "keySyncEffect env key' fallback (h\<lparr>cell := old\<rparr>) =
      keySyncEffect env key' fallback h"
    using assms
    by (simp add: keySyncEffect_setter ini same setStoredValue_data console_error_def emit_def
        split: sum.splits)
  have b: "fst (initializer env key' fallback h) = fallback \<or>
    (\<exists>s. slots h key' = Some s \<and> JSON_parse env s = Inr (fst (initializer env key' fallback h)))"
    by (auto simp: initializer_def parsedOrInitial_def getItem_def
        split: sum.splits option.splits if_splits)
  from a b c show ?thesis by simp
qed

theorem C7_key_change_witness:
  "\<not> instanceofFunction browser
       (fst (initializer browser ''theme'' JNull
         (hookWith (JBool True)\<lparr>slots := [''user'' \<mapsto> ''true'']\<rparr>))) \<and>
   cell (keySyncEffect browser ''theme'' JNull
     (hookWith (JBool True)\<lparr>slots := [''user'' \<mapsto> ''true'']\<rparr>)) = JNull \<and>
   \<not> instanceofFunction browser
       (fst (initializer browser ''theme'' JNull
         (hookWith (JBool True)\<lparr>slots := [''user'' \<mapsto> ''true'', ''theme'' \<mapsto> ''false'']\<rparr>))) \<and>
   cell (keySyncEffect browser ''theme'' JNull
     (hookWith (JBool True)\<lparr>slots := [''user'' \<mapsto> ''true'', ''theme'' \<mapsto> ''false'']\<rparr>))
     = JBool False"
proof -
  have i1: "fst (initializer browser ''theme'' JNull
         (hookWith (JBool True)\<lparr>slots := [''user'' \<mapsto> ''true'']\<rparr>)) = JNull"
    by (simp add: initializer_def parsedOrInitial_def getItem_def browser_def hookWith_def)
  have i2: "fst (initializer browser ''theme'' JNull
         (hookWith (JBool True)\<lparr>slots := [''user'' \<mapsto> ''true'', ''theme'' \<mapsto> ''false'']\<rparr>))
       = JBool False"
    by (simp add: initializer_def parsedOrInitial_def getItem_def truthy_def browser_def
        parse_def hookWith_def)
  have a1: "\<not> instanceofFunction browser
       (fst (initializer browser ''theme'' JNull
         (hookWith (JBool True)\<lparr>slots := [''user'' \<mapsto> ''true'']\<rparr>)))"
    unfolding i1 by (simp add: browser_def)
  have a2: "\<not> instanceofFunction browser
       (fst (initializer browser ''theme'' JNull
         (hookWith (JBool True)\<lparr>slots := [''user'' \<mapsto> ''true'', ''theme'' \<mapsto> ''false'']\<rparr>)))"
    unfolding i2 by (simp add: browser_def)
  show ?thesis
    using a1 a2 C7_key_change [OF a1] C7_key_change [OF a2] i1 i2 by simp
qed

text \<open>
  C7 as stated fails. The hook is mounted for the key \<open>user\<close>, whose entry decodes to
  \<open>true\<close>; the key \<open>theme\<close> has no entry. The render for the new key \<open>theme\<close>
  returns \<open>true\<close>, the old key's value, and a writer bound to \<open>theme\<close> that holds
  it: an updater written through it stores the negated old value under \<open>theme\<close>. And
  with a function as fallback the effect itself computes the new state from the old one.
\<close>

theorem C7_counterexample:
  "cell (mount browser ''user'' JNull (worldWith ''user'' ''true'')) = JBool True \<and>
   slots (mount browser ''user'' JNull (worldWith ''user'' ''true'')) ''theme'' = None \<and>
   fst (initializer browser ''theme'' JNull
         (mount browser ''user'' JNull (worldWith ''user'' ''true''))) = JNull \<and>
   fst (useLocalStorage browser ''theme''
         (mount browser ''user'' JNull (worldWith ''user'' ''true''))) = JBool True \<and>
   slots (snd (snd (useLocalStorage browser ''theme''
                     (mount browser ''user'' JNull (worldWith ''user'' ''true'')))
                (Fn Negate) (mount browser ''user'' JNull (worldWith ''user'' ''true''))))
     ''theme'' = Some ''false'' \<and>
   cell (keySyncEffect browser ''theme'' (Fn Negate)
          (mount browser ''user'' JNull (worldWith ''user'' ''true''))) = JBool False \<and>
   cell (keySyncEffect browser ''theme'' (Fn Negate)
          (mount browser ''user'' JNull (worldWith ''user'' ''false''))) = JBool True"
proof -
  have m: "mount browser ''user'' JNull (worldWith ''user'' ''true'') =
      \<lparr>slots = [''user'' \<mapsto> ''true''], trace = [SetStoredValue (JBool True)],
       cell = JBool True, renderError = None\<rparr>"
    by (simp add: mount_def initializer_def keySyncEffect_def parsedOrInitial_def getItem_def
        truthy_def setStoredValue_def emit_def browser_def parse_def worldWith_def)
  have m': "mount browser ''user'' JNull (worldWith ''user'' ''false'') =
      \<lparr>slots = [''user'' \<mapsto> ''false''], trace = [SetStoredValue (JBool False)],
       cell = JBool False, renderError = None\<rparr>"
    by (simp add: mount_def initializer_def keySyncEffect_def parsedOrInitial_def getItem_def
        truthy_def setStoredValue_def emit_def browser_def parse_def worldWith_def)
  show ?thesis
    unfolding m m'
    by (simp add: useLocalStorage_def setValue_def setValue_try_def valueToStore_def
        setItem_def toString_def initializer_def keySyncEffect_def parsedOrInitial_def
        getItem_def setStoredValue_def emit_def browser_def)
qed

text \<open>
  C8. For a key whose entry is the empty string, hydration returns the fallback, whatever
  \<open>JSON.parse\<close> would make of the empty string: the entry is falsy, so it is never
  handed to \<open>JSON.parse\<close>. Nothing is logged unless \<open>getItem\<close> itself throws, so
  no decoding failure is reported. The initializer of a fresh binding and the effect of a
  mounted one on the same storage agree on this.
\<close>

theorem C8_empty_string_entry:
  assumes "slots w key = Some []"
    and "slots h = slots w"
  shows "initializer (env\<lparr>JSON_parse := p\<rparr>) key fallback w =
           (fallback, case getItem_fault env key of
                        None \<Rightarrow> w
                      | Some e \<Rightarrow> console_error (msg_recuperar key) e w) \<and>
         keySyncEffect (env\<lparr>JSON_parse := p\<rparr>) key fallback h =
           setStoredValue env fallback
             (case getItem_fault env key of
                None \<Rightarrow> h
              | Some e \<Rightarrow> console_error (msg_atualizar key) e h)"
proof -
  have rw: "parsedOrInitial (env\<lparr>JSON_parse := p\<rparr>) key fallback w =
      (case getItem_fault env key of Some e \<Rightarrow> Inl e | None \<Rightarrow> Inr fallback)"
    using parsedOrInitial_empty [OF assms(1), of "env\<lparr>JSON_parse := p\<rparr>" fallback] by simp
  have "slots h key = Some []"
    by (simp add: assms)
  then have rh: "parsedOrInitial (env\<lparr>JSON_parse := p\<rparr>) key fallback h =
      (case getItem_fault env key of Some e \<Rightarrow> Inl e | None \<Rightarrow> Inr fallback)"
    using parsedOrInitial_empty [of h key "env\<lparr>JSON_parse := p\<rparr>" fallback] by simp
  from rw rh show ?thesis
    by (simp add: initializer_def keySyncEffect_def split: option.splits)
qed

theorem C8_empty_string_entry_witness:
  "slots (worldWith ''user'' '''') ''user'' = Some [] \<and>
   slots (hookWith (JBool True)\<lparr>slots := [''user'' \<mapsto> '''']\<rparr>) =
     slots (worldWith ''user'' '''') \<and>
   initializer (browser\<lparr>JSON_parse := \<lambda>s. Inr (JBool True)\<rparr>) ''user'' JNull
       (worldWith ''user'' '''') = (JNull, worldWith ''user'' '''') \<and>
   keySyncEffect (browser\<lparr>JSON_parse := \<lambda>s. Inr (JBool True)\<rparr>) ''user'' JNull
       (hookWith (JBool True)\<lparr>slots := [''user'' \<mapsto> '''']\<rparr>) =
     \<lparr>slots = [''user'' \<mapsto> ''''], trace = [SetStoredValue JNull], cell = JNull, renderError = None\<rparr>"
proof -
  have a: "slots (worldWith ''user'' '''') ''user'' = Some []"
    by (simp add: worldWith_def)
  have b: "slots (hookWith (JBool True)\<lparr>slots := [''user'' \<mapsto> '''']\<rparr>) =
     slots (worldWith ''user'' '''')"
    by (simp add: hookWith_def worldWith_def)
  show ?thesis
    using a b C8_empty_string_entry [OF a b, where env = browser
        and p = "\<lambda>s. Inr (JBool True)" and fallback = JNull]
    by (simp add: browser_def hookWith_def worldWith_def setStoredValue_def emit_def)
qed

text \<open>
  C9. \<open>setValue\<close> returns normally for every argument and every behaviour of the
  updater, of \<open>JSON.stringify\<close> and of \<open>setItem\<close>. An exception that leaves the
  \<open>try\<close> body is caught: the state is the one the body left, with one
  \<open>console.error\<close> carrying that exception added; without an exception nothing is
  logged.
\<close>

theorem C9_setValue_returns:
  "fst (setValue env key storedValue value h) = Inr () \<and>
   snd (setValue env key storedValue value h) =
     (case fst (setValue_try env key storedValue value h) of
        Inl e \<Rightarrow> console_error (msg_salvar key) e (snd (setValue_try env key storedValue value h))
      | Inr u \<Rightarrow> snd (setValue_try env key storedValue value h)) \<and>
   diagnostics (trace (snd (setValue env key storedValue value h))) =
     diagnostics (trace h) +
       (case fst (setValue_try env key storedValue value h) of Inl e \<Rightarrow> 1 | Inr u \<Rightarrow> 0)"
proof -
  have d: "diagnostics (trace (snd (setValue_try env key storedValue value h))) =
      diagnostics (trace h)"
    by (simp add: setValue_try_def trace_setItem split: sum.splits)
  show ?thesis
    by (cases "setValue_try env key storedValue value h")
      (use d in \<open>auto simp: setValue_def split: sum.splits\<close>)
qed

theorem C9_setValue_returns_witness:
  "fst (setValue browser ''user'' JNull (Fn Boom) (hookWith JNull)) = Inr () \<and>
   fst (setValue browser_full ''user'' JNull (JBool True) (hookWith JNull)) = Inr () \<and>
   diagnostics (trace (snd (setValue browser ''user'' JNull (Fn Boom) (hookWith JNull)))) = 1 \<and>
   diagnostics (trace (snd (setValue browser ''user'' JNull (JBool True) (hookWith JNull)))) = 0"
  using C9_setValue_returns [of browser "''user''" JNull "Fn Boom" "hookWith JNull"]
    C9_setValue_returns [of browser_full "''user''" JNull "JBool True" "hookWith JNull"]
    C9_setValue_returns [of browser "''user''" JNull "JBool True" "hookWith JNull"]
  by (simp add: setValue_try_def valueToStore_def setItem_def browser_full_def browser_def
      hookWith_def toString_def)

text \<open>
  C10, as the hook has it. A function value \<open>v\<close> given to the writer is always taken as
  an updater: the write proceeds with the result \<open>r\<close> of calling \<open>v\<close> on the current
  in-memory value, so \<open>r\<close> is what the state setter and the encoder receive, and when
  the call throws nothing is stored. The state setter in turn stores \<open>r\<close> when \<open>r\<close>
  is data, and when \<open>r\<close> is a function the result of calling \<open>r\<close> on the pending
  state. (The writer is the one of the current render, called on the current state.)
\<close>

theorem C10_function_value:
  assumes "instanceofFunction env v"
  shows "valueToStore env (cell h) v = call env v (cell h) \<and>
         setValue_try env key (cell h) v h =
           (case call env v (cell h) of
              Inl e \<Rightarrow> (Inl e, h)
            | Inr r \<Rightarrow>
                (case JSON_stringify env r of
                   Inl e \<Rightarrow> (Inl e, setStoredValue env r h)
                 | Inr text \<Rightarrow> setItem env key (toString text) (setStoredValue env r h))) \<and>
         cell (snd (snd (useLocalStorage env key h) v h)) =
           (case call env v (cell h) of
              Inl e \<Rightarrow> cell h
            | Inr r \<Rightarrow>
                (if instanceofFunction env r
                 then (case call env r (cell h) of Inl e \<Rightarrow> cell h | Inr y \<Rightarrow> y)
                 else r))"
proof -
  have vs: "valueToStore env (cell h) v = call env v (cell h)"
    using assms by (simp add: valueToStore_def)
  have body: "setValue_try env key (cell h) v h =
           (case call env v (cell h) of
              Inl e \<Rightarrow> (Inl e, h)
            | Inr r \<Rightarrow>
                (case JSON_stringify env r of
                   Inl e \<Rightarrow> (Inl e, setStoredValue env r h)
                 | Inr text \<Rightarrow> setItem env key (toString text) (setStoredValue env r h)))"
    by (simp add: setValue_try_def vs)
  have "cell (snd (snd (useLocalStorage env key h) v h)) =
      (case call env v (cell h) of
         Inl e \<Rightarrow> cell h
       | Inr r \<Rightarrow> cell (setStoredValue env r h))"
    by (simp add: useLocalStorage_def cell_setValue cell_setValue_try vs)
  then have c: "cell (snd (snd (useLocalStorage env key h) v h)) =
           (case call env v (cell h) of
              Inl e \<Rightarrow> cell h
            | Inr r \<Rightarrow>
                (if instanceofFunction env r
                 then (case call env r (cell h) of Inl e \<Rightarrow> cell h | Inr y \<Rightarrow> y)
                 else r))"
    by (simp add: cell_setStoredValue split: sum.splits)
  from vs body c show ?thesis by simp
qed

theorem C10_function_value_witness:
  "instanceofFunction browser (Fn Negate) \<and>
   valueToStore browser (JBool False) (Fn Negate) = Inr (JBool True) \<and>
   snd (useLocalStorage browser ''flag'' (hookWith (JBool False))) (Fn Negate)
       (hookWith (JBool False)) =
     (Inr (), \<lparr>slots = [''flag'' \<mapsto> ''true''],
               trace = [SetStoredValue (JBool True), SetItem ''flag'' ''true''],
               cell = JBool True, renderError = None\<rparr>)"
proof -
  have a: "instanceofFunction browser (Fn Negate)"
    by (simp add: browser_def)
  show ?thesis
    using a C10_function_value [OF a, of "hookWith (JBool False)" "''flag''"]
    by (simp add: useLocalStorage_def setValue_def setItem_def setStoredValue_def emit_def
        toString_def browser_def hookWith_def)
qed

text \<open>
  C10 as stated fails. For the function that returns itself, the result of the call, which
  is what goes to the state setter, is the function, and the state ends as that function.
  For \<open>ping\<close> the result of the call is \<open>pong\<close>; the state setter takes
  \<open>pong\<close> as an updater, and the state ends as \<open>ping\<close>, the value that was
  written, not as the result of applying it.
\<close>

theorem C10_counterexample:
  "instanceofFunction browser (Fn Self) \<and>
   call browser (Fn Self) JNull = Inr (Fn Self) \<and>
   cell (snd (snd (useLocalStorage browser ''handler'' (hookWith JNull)) (Fn Self)
           (hookWith JNull))) = Fn Self \<and>
   trace (snd (snd (useLocalStorage browser ''handler'' (hookWith JNull)) (Fn Self)
           (hookWith JNull))) =
     [SetStoredValue (Fn Self), SetItem ''handler'' ''undefined''] \<and>
   instanceofFunction browser (Fn Ping) \<and>
   call browser (Fn Ping) JNull = Inr (Fn Pong) \<and>
   cell (snd (snd (useLocalStorage browser ''handler'' (hookWith JNull)) (Fn Ping)
           (hookWith JNull))) = Fn Ping \<and>
   trace (snd (snd (useLocalStorage browser ''handler'' (hookWith JNull)) (Fn Ping)
           (hookWith JNull))) =
     [SetStoredValue (Fn Pong), SetItem ''handler'' ''undefined'']"
  by (simp add: useLocalStorage_def setValue_def setValue_try_def valueToStore_def
      setItem_def setStoredValue_def emit_def toString_def browser_def hookWith_def)

end
